theory Spec2Isabelle
  imports Main "HOL-Library.Word"
begin

section \<open>The database session runner of \<^verbatim>\<open>src/sql/main.go\<close>\<close>

text \<open>
  The program is one function, \<^verbatim>\<open>main\<close>, that drives Go's \<^verbatim>\<open>database/sql\<close>
  package: open, ping, one insert, its two result metrics, one select, a loop over the
  rows, a check of the iteration error, and two deferred \<^verbatim>\<open>Close\<close> calls. Every error
  is handed to \<^verbatim>\<open>log.Fatalln\<close>.

  The library and the database server are not part of the sources. What they answer to
  each call is therefore an input of the model (the record \<open>env\<close>), and what the program
  does to them is its output: the chronological list of calls it made and lines it
  printed (\<open>trace\<close>), and the exit code of the process.
\<close>

subsection \<open>Data\<close>

type_synonym int64 = "64 word"

text \<open>A Go \<^verbatim>\<open>error\<close> value, identified with its message.\<close>

datatype error = Error string

text \<open>
  \<^verbatim>\<open>type User struct { Id int; Username string; Password string }\<close>.
  Go's \<^verbatim>\<open>int\<close> is taken at its 64-bit width. The field \<^verbatim>\<open>Id\<close> is called \<open>Id_User\<close>
  here, since \<open>Id\<close> is the identity relation of HOL.
\<close>

record User =
  Id_User :: int64
  Username :: string
  Password :: string

text \<open>The zero value that \<^verbatim>\<open>new(User)\<close> and an omitted field of a literal give.\<close>

definition zero_User :: User where
  "zero_User = \<lparr>Id_User = 0, Username = [], Password = []\<rparr>"

text \<open>A column value as the driver hands it over (\<^verbatim>\<open>driver.Value\<close>).\<close>

datatype driver_Value = VInt int64 | VText string | VBool bool | VNil

text \<open>The calls that \<^verbatim>\<open>defer\<close> has put aside.\<close>

datatype deferred = CloseDB | CloseRows

text \<open>
  What the process does that can be seen from outside: each library call with the
  arguments that matter and the answer it got, each line on standard output, and the
  fatal log line. \<open>RowsScan a row r\<close> is \<^verbatim>\<open>rows.Scan(&u.Id, &u.Username, &u.Password)\<close>
  with \<^verbatim>\<open>u\<close> the record at address \<open>a\<close>, on the current row \<open>row\<close>.
\<close>

datatype event =
    SqlOpen string string "error option"
  | DbPing "error option"
  | DbExec string "string list" "error option"
  | ResRowsAffected "error + int64"
  | ResLastInsertId "error + int64"
  | DbQuery string "error option"
  | RowsNext bool
  | RowsScan nat "driver_Value list" "error option"
  | RowsErr "error option"
  | RowsClose
  | DbClose
  | Println string
  | LogFatalln error

text \<open>
  The answers of the library, one per call site. The cursor is the finite list of rows
  for which \<^verbatim>\<open>rows.Next()\<close> returns true; after them it returns false, and \<open>iter_err\<close>
  is what \<^verbatim>\<open>rows.Err()\<close> then reports (\<open>None\<close> for plain exhaustion). A result
  set is finite, so the loop of \<^verbatim>\<open>main\<close> is a recursion over that list and every run
  ends.
\<close>

record env =
  open_err :: "error option"
  ping_err :: "error option"
  exec_err :: "error option"
  rows_affected :: "error + int64"
  last_insert_id :: "error + int64"
  query_err :: "error option"
  result_rows :: "driver_Value list list"
  iter_err :: "error option"

text \<open>
  The state of the process: the records allocated so far (a pointer is an index into
  \<open>heap\<close>), the stack of deferred calls of \<^verbatim>\<open>main\<close> (most recent first), and the trace.
\<close>

record state =
  heap :: "User list"
  defers :: "deferred list"
  trace :: "event list"

definition init_state :: state where
  "init_state = \<lparr>heap = [], defers = [], trace = []\<rparr>"

subsection \<open>Formatting\<close>

definition digit :: "nat \<Rightarrow> char" where
  "digit n = char_of (48 + n)"

function fmt_nat :: "nat \<Rightarrow> string" where
  "fmt_nat n = (if n < 10 then [digit n] else fmt_nat (n div 10) @ [digit (n mod 10)])"
  by pat_completeness auto
termination
  by (relation "measure id") auto

declare fmt_nat.simps [simp del]

definition fmt_int :: "int \<Rightarrow> string" where
  "fmt_int i = (if i < 0 then CHR ''-'' # fmt_nat (nat (- i)) else fmt_nat (nat i))"

text \<open>\<^verbatim>\<open>fmt.Println\<close> of an \<^verbatim>\<open>int64\<close>: its signed decimal.\<close>

definition fmt_int64 :: "int64 \<Rightarrow> string" where
  "fmt_int64 w = fmt_int (sint w)"

text \<open>\<^verbatim>\<open>fmt.Println(u)\<close> for \<^verbatim>\<open>u *User\<close>: \<^verbatim>\<open>&{Id Username Password}\<close>.\<close>

definition fmt_User :: "User \<Rightarrow> string" where
  "fmt_User u =
     ''&{'' @ fmt_int64 (Id_User u) @ '' '' @ Username u @ '' '' @ Password u @ ''}''"

subsection \<open>Statements\<close>

definition emit :: "event \<Rightarrow> state \<Rightarrow> state" where
  "emit ev s = s\<lparr>trace := trace s @ [ev]\<rparr>"

text \<open>Allocation: the new record gets the next free address.\<close>

definition alloc :: "User \<Rightarrow> state \<Rightarrow> nat \<times> state" where
  "alloc v s = (length (heap s), s\<lparr>heap := heap s @ [v]\<rparr>)"

definition store :: "nat \<Rightarrow> User \<Rightarrow> state \<Rightarrow> state" where
  "store a v s = s\<lparr>heap := (heap s)[a := v]\<rparr>"

definition go_defer :: "deferred \<Rightarrow> state \<Rightarrow> state" where
  "go_defer d s = s\<lparr>defers := d # defers s\<rparr>"

text \<open>
  \<^verbatim>\<open>log.Fatalln(err)\<close> prints the error on the log and calls \<^verbatim>\<open>os.Exit(1)\<close>. The
  process ends there: \<^verbatim>\<open>os.Exit\<close> does not run deferred calls, so \<open>defers\<close> is left as
  it is.
\<close>

definition log_Fatalln :: "error \<Rightarrow> state \<Rightarrow> nat \<times> state" where
  "log_Fatalln err s = (1, emit (LogFatalln err) s)"

fun call_deferred :: "deferred \<Rightarrow> state \<Rightarrow> state" where
  "call_deferred CloseDB s = emit DbClose s"
| "call_deferred CloseRows s = emit RowsClose s"

fun run_deferred :: "deferred list \<Rightarrow> state \<Rightarrow> state" where
  "run_deferred [] s = s"
| "run_deferred (d # ds) s = run_deferred ds (call_deferred d s)"

text \<open>
  \<^verbatim>\<open>main\<close> returning: its deferred calls run, last deferred first, and the process
  exits with code 0.
\<close>

definition return_main :: "state \<Rightarrow> nat \<times> state" where
  "return_main s = (0, run_deferred (defers s) (s\<lparr>defers := []\<rparr>))"

subsection \<open>Decoding a row\<close>

text \<open>
  Modelled from the spec: \<^verbatim>\<open>Rows.Scan\<close> and the conversions it applies belong to
  \<^verbatim>\<open>database/sql\<close>, whose code is not among the sources; only the call at line 116 and
  the comment above it are (``the number of values in dest must be the same as the
  number of columns in Rows''). The spec (sections 4.1 and 8) says that decoding succeeds
  exactly when the row has three columns of the expected types, an integer and two
  texts, and fails otherwise. \<open>convert_int\<close> is the conversion into the destination
  \<^verbatim>\<open>&u.Id\<close>: it accepts an integer column only.
\<close>

definition convert_int :: "driver_Value \<Rightarrow> error + int64" where
  "convert_int v =
     (case v of VInt i \<Rightarrow> Inr i
      | _ \<Rightarrow> Inl (Error ''sql: Scan error: unsupported conversion to int''))"

text \<open>
  Modelled from the spec: the conversion into the destinations \<^verbatim>\<open>&u.Username\<close> and
  \<^verbatim>\<open>&u.Password\<close>; it accepts a text column only.
\<close>

definition convert_string :: "driver_Value \<Rightarrow> error + string" where
  "convert_string v =
     (case v of VText t \<Rightarrow> Inr t
      | _ \<Rightarrow> Inl (Error ''sql: Scan error: unsupported conversion to string''))"

text \<open>
  Modelled from the spec: \<^verbatim>\<open>rows.Scan(&u.Id, &u.Username, &u.Password)\<close> on the current
  row. The number of columns is checked against the three destinations of the call
  first; then each column is converted into its destination, in order. The result is
  the error, or the three fields that the call has written into \<^verbatim>\<open>u\<close>. (On an error the
  process ends at once, so what a failed \<^verbatim>\<open>Scan\<close> may already have written is never
  read; the model leaves the record at its zero value.)
\<close>

definition Scan :: "driver_Value list \<Rightarrow> error + User" where
  "Scan row =
     (if length row \<noteq> 3
      then Inl (Error ''sql: expected 3 destination arguments in Scan'')
      else case convert_int (row ! 0) of Inl err \<Rightarrow> Inl err | Inr i \<Rightarrow>
           case convert_string (row ! 1) of Inl err \<Rightarrow> Inl err | Inr n \<Rightarrow>
           case convert_string (row ! 2) of Inl err \<Rightarrow> Inl err | Inr p \<Rightarrow>
           Inr \<lparr>Id_User = i, Username = n, Password = p\<rparr>)"

subsection \<open>The program\<close>

definition dsn :: string where
  "dsn = ''username:password@tcp(127.0.0.1:3306)/mydb''"

definition query :: string where
  "query = ''insert into users (username, password) values (?, ?)''"

text \<open>
  Lines 107 to 122, \<^verbatim>\<open>for rows.Next() { u := new(User); ... }\<close>, on the rows the cursor
  still has. \<open>Inl\<close> is the process ended by \<^verbatim>\<open>log.Fatalln\<close> inside the body, \<open>Inr\<close> the
  state after \<^verbatim>\<open>rows.Next()\<close> has returned false.
\<close>

fun rows_loop :: "driver_Value list list \<Rightarrow> state \<Rightarrow> (nat \<times> state) + state" where
  "rows_loop [] s = Inr (emit (RowsNext False) s)"
| "rows_loop (row # rest) s =
     (let s = emit (RowsNext True) s;
          (u, s) = alloc zero_User s
      in case Scan row of
           Inl err \<Rightarrow> Inl (log_Fatalln err (emit (RowsScan u row (Some err)) s))
         | Inr v \<Rightarrow>
             let s = store u v (emit (RowsScan u row None) s);
                 s = emit (Println (fmt_User (heap s ! u))) s
             in rows_loop rest s)"

text \<open>
  \<^verbatim>\<open>func main()\<close>, statement by statement. The result is the exit code of the process
  and its last state.
\<close>

definition main :: "env \<Rightarrow> nat \<times> state" where
  "main env =
     (let s = emit (SqlOpen ''mysql'' dsn (open_err env)) init_state in
      case open_err env of Some err \<Rightarrow> log_Fatalln err s | None \<Rightarrow>
     (let s = go_defer CloseDB s;
          s = emit (DbPing (ping_err env)) s in
      case ping_err env of Some err \<Rightarrow> log_Fatalln err s | None \<Rightarrow>
     (let (u, s) = alloc (zero_User\<lparr>Username := ''radovskyb'', Password := ''password123''\<rparr>) s;
          s = emit (DbExec query [Username (heap s ! u), Password (heap s ! u)] (exec_err env)) s in
      case exec_err env of Some err \<Rightarrow> log_Fatalln err s | None \<Rightarrow>
     (let s = emit (ResRowsAffected (rows_affected env)) s in
      case rows_affected env of Inl err \<Rightarrow> log_Fatalln err s | Inr numAffected \<Rightarrow>
     (let s = emit (Println (fmt_int64 numAffected)) s;
          s = emit (ResLastInsertId (last_insert_id env)) s in
      case last_insert_id env of Inl err \<Rightarrow> log_Fatalln err s | Inr lastInsertId \<Rightarrow>
     (let s = emit (Println (fmt_int64 lastInsertId)) s;
          s = emit (DbQuery ''select * from users'' (query_err env)) s in
      case query_err env of Some err \<Rightarrow> log_Fatalln err s | None \<Rightarrow>
     (let s = go_defer CloseRows s in
      case rows_loop (result_rows env) s of Inl exited \<Rightarrow> exited | Inr s \<Rightarrow>
     (let s = emit (RowsErr (iter_err env)) s in
      case iter_err env of Some err \<Rightarrow> log_Fatalln err s | None \<Rightarrow>
      return_main s))))))))"

subsection \<open>Reading a run\<close>

text \<open>A call that returned an error, and the error.\<close>

fun failed :: "event \<Rightarrow> error option" where
  "failed (SqlOpen _ _ r) = r"
| "failed (DbPing r) = r"
| "failed (DbExec _ _ r) = r"
| "failed (ResRowsAffected r) = (case r of Inl err \<Rightarrow> Some err | Inr _ \<Rightarrow> None)"
| "failed (ResLastInsertId r) = (case r of Inl err \<Rightarrow> Some err | Inr _ \<Rightarrow> None)"
| "failed (DbQuery _ r) = r"
| "failed (RowsScan _ _ r) = r"
| "failed (RowsErr r) = r"
| "failed _ = None"

text \<open>
  A trace is fail-fast when the first call that returned an error is followed by the
  fatal log line of that error and by nothing else.
\<close>

fun fail_fast :: "event list \<Rightarrow> bool" where
  "fail_fast [] = True"
| "fail_fast (ev # rest) =
     (case failed ev of Some err \<Rightarrow> rest = [LogFatalln err] | None \<Rightarrow> fail_fast rest)"

text \<open>No call in the trace returned an error.\<close>

definition clean :: "event list \<Rightarrow> bool" where
  "clean t = list_all (\<lambda>ev. failed ev = None) t"

text \<open>
  The names the spec (section 7) gives to a failure, by the step that failed. The code
  has no such types: it logs whatever \<^verbatim>\<open>error\<close> the library returned.
\<close>

datatype error_kind = ConnectionError | QueryError | ResultError | DecodeError

fun spec_error_kind :: "event \<Rightarrow> error_kind option" where
  "spec_error_kind (SqlOpen _ _ (Some _)) = Some ConnectionError"
| "spec_error_kind (DbPing (Some _)) = Some ConnectionError"
| "spec_error_kind (DbExec _ _ (Some _)) = Some QueryError"
| "spec_error_kind (ResRowsAffected (Inl _)) = Some ResultError"
| "spec_error_kind (ResLastInsertId (Inl _)) = Some ResultError"
| "spec_error_kind (DbQuery _ (Some _)) = Some QueryError"
| "spec_error_kind (RowsScan _ _ (Some _)) = Some DecodeError"
| "spec_error_kind (RowsErr (Some _)) = Some QueryError"
| "spec_error_kind _ = None"

text \<open>The lines on standard output, in order.\<close>

fun stdout :: "event list \<Rightarrow> string list" where
  "stdout [] = []"
| "stdout (Println l # rest) = l # stdout rest"
| "stdout (_ # rest) = stdout rest"

fun is_DbExec :: "event \<Rightarrow> bool" where
  "is_DbExec (DbExec _ _ _) = True"
| "is_DbExec _ = False"

text \<open>The destination of a \<^verbatim>\<open>Scan\<close>, the only call that writes into a record.\<close>

fun scan_dest :: "event \<Rightarrow> nat option" where
  "scan_dest (RowsScan a _ _) = Some a"
| "scan_dest _ = None"

definition decodes :: "driver_Value list \<Rightarrow> bool" where
  "decodes row = (\<not> isl (Scan row))"

definition decoded :: "driver_Value list \<Rightarrow> User" where
  "decoded row = projr (Scan row)"

text \<open>
  The trace of the loop body over rows that all decode, the first record being
  allocated at address \<open>a\<close>.
\<close>

fun decode_events :: "nat \<Rightarrow> driver_Value list list \<Rightarrow> event list" where
  "decode_events a [] = []"
| "decode_events a (row # rest) =
     RowsNext True # RowsScan a row None # Println (fmt_User (decoded row)) #
     decode_events (Suc a) rest"

text \<open>The record of line 50, \<^verbatim>\<open>&User{Username: "radovskyb", Password: "password123"}\<close>.\<close>

definition user0 :: User where
  "user0 = \<lparr>Id_User = 0, Username = ''radovskyb'', Password = ''password123''\<rparr>"

text \<open>The trace of a run up to a \<^verbatim>\<open>db.Query\<close> that succeeded.\<close>

definition to_query :: "int64 \<Rightarrow> int64 \<Rightarrow> event list" where
  "to_query n i =
     [SqlOpen ''mysql'' dsn None, DbPing None,
      DbExec query [''radovskyb'', ''password123''] None,
      ResRowsAffected (Inr n), Println (fmt_int64 n),
      ResLastInsertId (Inr i), Println (fmt_int64 i),
      DbQuery ''select * from users'' None]"

subsection \<open>Sample environments\<close>

text \<open>
  The end-to-end scenario of the spec: the table was empty, the insert affects one row and
  gets identifier 1, and the select returns that row.
\<close>

definition env_ok :: env where
  "env_ok =
     \<lparr>open_err = None, ping_err = None, exec_err = None,
      rows_affected = Inr 1, last_insert_id = Inr 1, query_err = None,
      result_rows = [ [VInt 1, VText ''radovskyb'', VText ''password123''] ],
      iter_err = None\<rparr>"

text \<open>No server listens at the address of the connection string.\<close>

definition env_unreachable :: env where
  "env_unreachable =
     env_ok\<lparr>ping_err := Some (Error ''dial tcp 127.0.0.1:3306: connect: connection refused'')\<rparr>"

text \<open>The select returns a row of two columns after a good one.\<close>

definition env_short_row :: env where
  "env_short_row =
     env_ok\<lparr>result_rows :=
       [ [VInt 1, VText ''radovskyb'', VText ''password123''], [VInt 2, VText ''ann''] ]\<rparr>"

text \<open>The connection breaks after the first row has been read.\<close>

definition env_broken_cursor :: env where
  "env_broken_cursor = env_ok\<lparr>iter_err := Some (Error ''invalid connection'')\<rparr>"

text \<open>The select finds no row.\<close>

definition env_empty :: env where
  "env_empty = env_ok\<lparr>result_rows := []\<rparr>"

text \<open>The driver does not report the identifier of the inserted row.\<close>

definition env_no_insert_id :: env where
  "env_no_insert_id = env_ok\<lparr>last_insert_id := Inl (Error ''LastInsertId is not supported'')\<rparr>"

section \<open>Properties\<close>

subsection \<open>The loop\<close>

lemmas stmt_defs = emit_def alloc_def store_def go_defer_def log_Fatalln_def return_main_def
  init_state_def zero_User_def Let_def

lemmas env_defs = env_ok_def env_unreachable_def env_short_row_def env_broken_cursor_def
  env_empty_def env_no_insert_id_def

lemmas scan_defs = Scan_def convert_int_def convert_string_def decodes_def decoded_def

lemma rows_loop_all_decode:
  "list_all decodes rows \<Longrightarrow>
   rows_loop rows s =
     Inr (s\<lparr>heap := heap s @ map decoded rows,
            trace := trace s @ decode_events (length (heap s)) rows @ [RowsNext False]\<rparr>)"
proof (induction rows arbitrary: s)
  case Nil
  show ?case by (simp add: emit_def)
next
  case (Cons row rest)
  from Cons.prems obtain v where v: "Scan row = Inr v"
    by (cases "Scan row") (simp_all add: decodes_def)
  from Cons.prems have rest: "list_all decodes rest" by simp
  show ?case
    by (simp add: v Cons.IH [OF rest] decoded_def emit_def alloc_def store_def Let_def)
qed

lemma rows_loop_first_failure:
  "list_all decodes ok \<Longrightarrow> Scan bad = Inl err \<Longrightarrow>
   rows_loop (ok @ bad # rest) s =
     Inl (1, s\<lparr>heap := heap s @ map decoded ok @ [zero_User],
               trace := trace s @ decode_events (length (heap s)) ok @
                 [RowsNext True, RowsScan (length (heap s) + length ok) bad (Some err),
                  LogFatalln err]\<rparr>)"
proof (induction ok arbitrary: s)
  case Nil
  then show ?case by (simp add: emit_def alloc_def log_Fatalln_def Let_def)
next
  case (Cons row ok)
  from Cons.prems obtain v where v: "Scan row = Inr v"
    by (cases "Scan row") (simp_all add: decodes_def)
  from Cons.prems have ok: "list_all decodes ok" by simp
  show ?case
    by (simp add: v Cons.IH [OF ok Cons.prems(2)] decoded_def emit_def alloc_def store_def Let_def)
qed

lemma first_undecodable:
  assumes "\<not> list_all decodes rows"
  shows "\<exists>ok bad rest err. rows = ok @ bad # rest \<and> list_all decodes ok \<and> Scan bad = Inl err"
proof -
  from assms have "\<exists>r\<in>set rows. \<not> decodes r" by (simp add: list_all_iff)
  then obtain ok bad rest where
    "rows = ok @ bad # rest" "\<not> decodes bad" "\<forall>r\<in>set ok. \<not> \<not> decodes r"
    using split_list_first_prop [of rows "\<lambda>r. \<not> decodes r"] by blast
  moreover from \<open>\<not> decodes bad\<close> obtain err where "Scan bad = Inl err"
    by (cases "Scan bad") (simp_all add: decodes_def)
  ultimately show ?thesis by (auto simp: list_all_iff)
qed

subsection \<open>The nine ways a run ends\<close>

lemma main_open_fail:
  "open_err env = Some err \<Longrightarrow>
   main env = (1, \<lparr>heap = [], defers = [],
                   trace = [SqlOpen ''mysql'' dsn (Some err), LogFatalln err]\<rparr>)"
  by (simp add: main_def stmt_defs)

lemma main_ping_fail:
  "open_err env = None \<Longrightarrow> ping_err env = Some err \<Longrightarrow>
   main env = (1, \<lparr>heap = [], defers = [CloseDB],
                   trace = [SqlOpen ''mysql'' dsn None, DbPing (Some err), LogFatalln err]\<rparr>)"
  by (simp add: main_def stmt_defs)

lemma main_exec_fail:
  "open_err env = None \<Longrightarrow> ping_err env = None \<Longrightarrow> exec_err env = Some err \<Longrightarrow>
   main env = (1, \<lparr>heap = [user0], defers = [CloseDB],
                   trace = [SqlOpen ''mysql'' dsn None, DbPing None,
                            DbExec query [''radovskyb'', ''password123''] (Some err),
                            LogFatalln err]\<rparr>)"
  by (simp add: main_def stmt_defs user0_def)

lemma main_rows_affected_fail:
  "open_err env = None \<Longrightarrow> ping_err env = None \<Longrightarrow> exec_err env = None \<Longrightarrow>
   rows_affected env = Inl err \<Longrightarrow>
   main env = (1, \<lparr>heap = [user0], defers = [CloseDB],
                   trace = [SqlOpen ''mysql'' dsn None, DbPing None,
                            DbExec query [''radovskyb'', ''password123''] None,
                            ResRowsAffected (Inl err), LogFatalln err]\<rparr>)"
  by (simp add: main_def stmt_defs user0_def)

lemma main_last_insert_id_fail:
  "open_err env = None \<Longrightarrow> ping_err env = None \<Longrightarrow> exec_err env = None \<Longrightarrow>
   rows_affected env = Inr n \<Longrightarrow> last_insert_id env = Inl err \<Longrightarrow>
   main env = (1, \<lparr>heap = [user0], defers = [CloseDB],
                   trace = [SqlOpen ''mysql'' dsn None, DbPing None,
                            DbExec query [''radovskyb'', ''password123''] None,
                            ResRowsAffected (Inr n), Println (fmt_int64 n),
                            ResLastInsertId (Inl err), LogFatalln err]\<rparr>)"
  by (simp add: main_def stmt_defs user0_def)

lemma main_query_fail:
  "open_err env = None \<Longrightarrow> ping_err env = None \<Longrightarrow> exec_err env = None \<Longrightarrow>
   rows_affected env = Inr n \<Longrightarrow> last_insert_id env = Inr i \<Longrightarrow>
   query_err env = Some err \<Longrightarrow>
   main env = (1, \<lparr>heap = [user0], defers = [CloseDB],
                   trace = [SqlOpen ''mysql'' dsn None, DbPing None,
                            DbExec query [''radovskyb'', ''password123''] None,
                            ResRowsAffected (Inr n), Println (fmt_int64 n),
                            ResLastInsertId (Inr i), Println (fmt_int64 i),
                            DbQuery ''select * from users'' (Some err), LogFatalln err]\<rparr>)"
  by (simp add: main_def stmt_defs user0_def)

lemma main_scan_fail:
  "open_err env = None \<Longrightarrow> ping_err env = None \<Longrightarrow> exec_err env = None \<Longrightarrow>
   rows_affected env = Inr n \<Longrightarrow> last_insert_id env = Inr i \<Longrightarrow>
   query_err env = None \<Longrightarrow>
   result_rows env = ok @ bad # rest \<Longrightarrow> list_all decodes ok \<Longrightarrow> Scan bad = Inl err \<Longrightarrow>
   main env = (1, \<lparr>heap = user0 # map decoded ok @ [zero_User],
                   defers = [CloseRows, CloseDB],
                   trace = to_query n i @ decode_events 1 ok @
                     [RowsNext True, RowsScan (Suc (length ok)) bad (Some err),
                      LogFatalln err]\<rparr>)"
  by (simp add: main_def rows_loop_first_failure to_query_def user0_def
      emit_def alloc_def go_defer_def init_state_def Let_def zero_User_def)

lemma main_iter_fail:
  "open_err env = None \<Longrightarrow> ping_err env = None \<Longrightarrow> exec_err env = None \<Longrightarrow>
   rows_affected env = Inr n \<Longrightarrow> last_insert_id env = Inr i \<Longrightarrow>
   query_err env = None \<Longrightarrow>
   list_all decodes (result_rows env) \<Longrightarrow> iter_err env = Some err \<Longrightarrow>
   main env = (1, \<lparr>heap = user0 # map decoded (result_rows env),
                   defers = [CloseRows, CloseDB],
                   trace = to_query n i @ decode_events 1 (result_rows env) @
                     [RowsNext False, RowsErr (Some err), LogFatalln err]\<rparr>)"
  by (simp add: main_def rows_loop_all_decode to_query_def user0_def
      emit_def alloc_def go_defer_def init_state_def Let_def zero_User_def log_Fatalln_def)

lemma main_success:
  "open_err env = None \<Longrightarrow> ping_err env = None \<Longrightarrow> exec_err env = None \<Longrightarrow>
   rows_affected env = Inr n \<Longrightarrow> last_insert_id env = Inr i \<Longrightarrow>
   query_err env = None \<Longrightarrow>
   list_all decodes (result_rows env) \<Longrightarrow> iter_err env = None \<Longrightarrow>
   main env = (0, \<lparr>heap = user0 # map decoded (result_rows env),
                   defers = [],
                   trace = to_query n i @ decode_events 1 (result_rows env) @
                     [RowsNext False, RowsErr None, RowsClose, DbClose]\<rparr>)"
  by (simp add: main_def rows_loop_all_decode to_query_def user0_def
      emit_def alloc_def go_defer_def init_state_def Let_def zero_User_def return_main_def)

lemma main_cases [case_names open_fail ping_fail exec_fail rows_affected_fail
    last_insert_id_fail query_fail scan_fail iter_fail success]:
  obtains
    (open_fail) err where "open_err env = Some err"
  | (ping_fail) err where "open_err env = None" "ping_err env = Some err"
  | (exec_fail) err where "open_err env = None" "ping_err env = None" "exec_err env = Some err"
  | (rows_affected_fail) err where "open_err env = None" "ping_err env = None"
      "exec_err env = None" "rows_affected env = Inl err"
  | (last_insert_id_fail) n err where "open_err env = None" "ping_err env = None"
      "exec_err env = None" "rows_affected env = Inr n" "last_insert_id env = Inl err"
  | (query_fail) n i err where "open_err env = None" "ping_err env = None"
      "exec_err env = None" "rows_affected env = Inr n" "last_insert_id env = Inr i"
      "query_err env = Some err"
  | (scan_fail) n i ok bad rest err where "open_err env = None" "ping_err env = None"
      "exec_err env = None" "rows_affected env = Inr n" "last_insert_id env = Inr i"
      "query_err env = None" "result_rows env = ok @ bad # rest" "list_all decodes ok"
      "Scan bad = Inl err"
  | (iter_fail) n i err where "open_err env = None" "ping_err env = None"
      "exec_err env = None" "rows_affected env = Inr n" "last_insert_id env = Inr i"
      "query_err env = None" "list_all decodes (result_rows env)" "iter_err env = Some err"
  | (success) n i where "open_err env = None" "ping_err env = None"
      "exec_err env = None" "rows_affected env = Inr n" "last_insert_id env = Inr i"
      "query_err env = None" "list_all decodes (result_rows env)" "iter_err env = None"
proof (cases "open_err env")
  case (Some err)
  then show ?thesis by (rule open_fail)
next
  case o: None
  show ?thesis
  proof (cases "ping_err env")
    case (Some err)
    with o show ?thesis by (rule ping_fail)
  next
    case p: None
    show ?thesis
    proof (cases "exec_err env")
      case (Some err)
      with o p show ?thesis by (rule exec_fail)
    next
      case x: None
      show ?thesis
      proof (cases "rows_affected env")
        case (Inl err)
        with o p x show ?thesis by (rule rows_affected_fail)
      next
        case n: (Inr n)
        show ?thesis
        proof (cases "last_insert_id env")
          case (Inl err)
          with o p x n show ?thesis by (rule last_insert_id_fail)
        next
          case i: (Inr i)
          show ?thesis
          proof (cases "query_err env")
            case (Some err)
            with o p x n i show ?thesis by (rule query_fail)
          next
            case q: None
            show ?thesis
            proof (cases "list_all decodes (result_rows env)")
              case False
              then obtain ok bad rest err where
                "result_rows env = ok @ bad # rest" "list_all decodes ok" "Scan bad = Inl err"
                using first_undecodable by blast
              with o p x n i q show ?thesis by (rule scan_fail)
            next
              case d: True
              show ?thesis
              proof (cases "iter_err env")
                case (Some err)
                with o p x n i q d show ?thesis by (rule iter_fail)
              next
                case None
                with o p x n i q d show ?thesis by (rule success)
              qed
            qed
          qed
        qed
      qed
    qed
  qed
qed

subsection \<open>Traces\<close>

lemma clean_decode_events: "clean (decode_events a rows)"
  by (induction rows arbitrary: a) (simp_all add: clean_def)

lemma clean_to_query: "clean (to_query n i)"
  by (simp add: clean_def to_query_def)

lemma clean_append: "clean (xs @ ys) = (clean xs \<and> clean ys)"
  by (simp add: clean_def)

lemma fail_fast_clean_append: "clean xs \<Longrightarrow> fail_fast (xs @ ys) = fail_fast ys"
  by (induction xs) (simp_all add: clean_def)

lemma clean_no_failure: "clean (pre @ ev # post) \<Longrightarrow> failed ev = None"
  by (simp add: clean_def)

lemma fail_fast_after:
  "fail_fast t \<Longrightarrow> t = pre @ ev # post \<Longrightarrow> failed ev = Some err \<Longrightarrow> post = [LogFatalln err]"
proof (induction t arbitrary: pre)
  case Nil
  then show ?case by simp
next
  case (Cons x t)
  show ?case
  proof (cases pre)
    case Nil
    with Cons.prems show ?thesis by simp
  next
    case (Cons y pre')
    with Cons.prems(2) have x: "x = y" and t: "t = pre' @ ev # post" by simp_all
    show ?thesis
    proof (cases "failed x")
      case None
      with Cons.prems(1) have "fail_fast t" by simp
      from Cons.IH [OF this t Cons.prems(3)] show ?thesis .
    next
      case (Some e)
      with Cons.prems(1) have "t = [LogFatalln e]" by simp
      with t have "pre' = [] \<and> ev = LogFatalln e"
        by (cases pre') simp_all
      with Cons.prems(3) show ?thesis by simp
    qed
  qed
qed

lemma main_fail_fast: "fail_fast (trace (snd (main env)))"
proof (cases env rule: main_cases)
  case (scan_fail n i ok bad rest err)
  then show ?thesis
    by (simp add: main_scan_fail fail_fast_clean_append clean_to_query clean_decode_events)
next
  case (iter_fail n i err)
  then show ?thesis
    by (simp add: main_iter_fail fail_fast_clean_append clean_to_query clean_decode_events)
next
  case (success n i)
  then show ?thesis
    by (simp add: main_success fail_fast_clean_append clean_to_query clean_decode_events)
qed (simp_all add: main_open_fail main_ping_fail main_exec_fail main_rows_affected_fail
      main_last_insert_id_fail main_query_fail)

lemma main_exit_code: "fst (main env) = (if clean (trace (snd (main env))) then 0 else 1)"
proof (cases env rule: main_cases)
  case (scan_fail n i ok bad rest err)
  then show ?thesis
    by (simp add: main_scan_fail clean_append clean_to_query clean_decode_events)
      (simp add: clean_def)
next
  case (iter_fail n i err)
  then show ?thesis
    by (simp add: main_iter_fail clean_append clean_to_query clean_decode_events)
      (simp add: clean_def)
next
  case (success n i)
  then show ?thesis
    by (simp add: main_success clean_append clean_to_query clean_decode_events)
      (simp add: clean_def)
qed (simp_all add: main_open_fail main_ping_fail main_exec_fail main_rows_affected_fail
      main_last_insert_id_fail main_query_fail clean_def)

lemma main_exit_0:
  assumes "fst (main env) = 0"
  obtains n i where "open_err env = None" "ping_err env = None"
      "exec_err env = None" "rows_affected env = Inr n" "last_insert_id env = Inr i"
      "query_err env = None" "list_all decodes (result_rows env)" "iter_err env = None"
  using assms
  by (cases env rule: main_cases)
    (simp_all add: main_open_fail main_ping_fail main_exec_fail main_rows_affected_fail
      main_last_insert_id_fail main_query_fail main_scan_fail main_iter_fail)

lemma stdout_append: "stdout (xs @ ys) = stdout xs @ stdout ys"
  by (induction xs rule: stdout.induct) simp_all

lemma stdout_decode_events:
  "stdout (decode_events a rows) = map (\<lambda>row. fmt_User (decoded row)) rows"
  by (induction rows arbitrary: a) simp_all

lemma stdout_to_query: "stdout (to_query n i) = [fmt_int64 n, fmt_int64 i]"
  by (simp add: to_query_def)

lemma main_trace_prefix:
  assumes "open_err env = None" "ping_err env = None" "exec_err env = None"
    "rows_affected env = Inr n" "last_insert_id env = Inr i"
  shows "\<exists>rest. trace (snd (main env)) =
           [SqlOpen ''mysql'' dsn None, DbPing None,
            DbExec query [''radovskyb'', ''password123''] None,
            ResRowsAffected (Inr n), Println (fmt_int64 n),
            ResLastInsertId (Inr i), Println (fmt_int64 i)] @ rest"
  using assms
  by (cases env rule: main_cases)
    (simp_all add: main_query_fail main_scan_fail main_iter_fail main_success to_query_def)

lemma scan_dest_decode_events:
  "list_all (\<lambda>ev. scan_dest ev \<noteq> Some 0) (decode_events (Suc a) rows)"
  by (induction rows arbitrary: a) simp_all

lemma decodes_iff: "decodes row \<longleftrightarrow> (\<exists>i n p. row = [VInt i, VText n, VText p])"
proof
  assume d: "decodes row"
  then have len: "length row = 3"
    by (simp add: decodes_def Scan_def split: if_splits)
  then obtain a b c where row: "row = [a, b, c]"
    by (cases row; cases "tl row"; cases "tl (tl row)") auto
  from d row show "\<exists>i n p. row = [VInt i, VText n, VText p]"
    by (cases a; cases b; cases c) (simp_all add: scan_defs)
next
  assume "\<exists>i n p. row = [VInt i, VText n, VText p]"
  then show "decodes row" by (auto simp add: scan_defs)
qed

subsection \<open>Formatting, on the values of the end-to-end scenario\<close>

lemma fmt_examples:
  "fmt_int64 1 = ''1''"
  "fmt_int64 (- 42) = ''-42''"
  "fmt_User \<lparr>Id_User = 1, Username = ''radovskyb'', Password = ''password123''\<rparr> =
     ''&{1 radovskyb password123}''"
  by code_simp+

section \<open>The claims\<close>

subsection \<open>Release of the connection and of the cursor\<close>

text \<open>
  C1 says that on every exit path, the fail-fast ones included, the connection opened at
  Connect and the cursor opened at Query-all are each released exactly once before the
  process terminates. The code does not do that: the two \<^verbatim>\<open>Close\<close> calls are deferred
  (lines 39 and 97), and every error path ends in \<^verbatim>\<open>log.Fatalln\<close>, that is in
  \<^verbatim>\<open>os.Exit(1)\<close>, which runs no deferred call. With an unreachable server the run is
  open, ping, fatal log: \<^verbatim>\<open>db.Close\<close> is still pending when the process exits and is
  never called. With a row of two columns the process exits inside the loop, and neither
  \<^verbatim>\<open>rows.Close\<close> nor \<^verbatim>\<open>db.Close\<close> is called.
\<close>

theorem fatal_exit_skips_deferred_close:
  "main env_unreachable =
     (1, \<lparr>heap = [], defers = [CloseDB],
          trace = [SqlOpen ''mysql'' dsn None,
                   DbPing (Some (Error ''dial tcp 127.0.0.1:3306: connect: connection refused'')),
                   LogFatalln (Error ''dial tcp 127.0.0.1:3306: connect: connection refused'')]\<rparr>)
   \<and> count_list (trace (snd (main env_unreachable))) DbClose = 0
   \<and> defers (snd (main env_short_row)) = [CloseRows, CloseDB]
   \<and> count_list (trace (snd (main env_short_row))) RowsClose = 0
   \<and> count_list (trace (snd (main env_short_row))) DbClose = 0"
  by (simp add: main_def env_defs stmt_defs scan_defs)

subsection \<open>Errors are fatal\<close>

text \<open>
  C2: whichever step returns an error (connect, ping, insert, rows affected, last insert
  id, query, the decoding of a row, the check after the loop), the process terminates
  there. Whenever a call in the trace of a run returned an error, the rest of the trace
  is the fatal log line of that very error and nothing more: no retry, no recovery, no
  later step; and the exit code is 1.
\<close>

theorem error_is_fatal_at_once:
  assumes "trace (snd (main env)) = before @ ev # after" and "failed ev = Some err"
  shows "after = [LogFatalln err] \<and> fst (main env) = 1"
proof
  from main_fail_fast assms show "after = [LogFatalln err]" by (rule fail_fast_after)
  from assms have "\<not> clean (trace (snd (main env)))"
    using clean_no_failure [of before ev after] by auto
  then show "fst (main env) = 1" by (simp add: main_exit_code)
qed

theorem error_is_fatal_at_once_witness:
  "trace (snd (main env_no_insert_id)) =
     [SqlOpen ''mysql'' dsn None, DbPing None,
      DbExec query [''radovskyb'', ''password123''] None,
      ResRowsAffected (Inr 1), Println (fmt_int64 1)] @
     ResLastInsertId (Inl (Error ''LastInsertId is not supported'')) #
     [LogFatalln (Error ''LastInsertId is not supported'')]
   \<and> failed (ResLastInsertId (Inl (Error ''LastInsertId is not supported''))) =
       Some (Error ''LastInsertId is not supported'')
   \<and> fst (main env_no_insert_id) = 1"
proof -
  have t: "trace (snd (main env_no_insert_id)) =
     [SqlOpen ''mysql'' dsn None, DbPing None,
      DbExec query [''radovskyb'', ''password123''] None,
      ResRowsAffected (Inr 1), Println (fmt_int64 1)] @
     ResLastInsertId (Inl (Error ''LastInsertId is not supported'')) #
     [LogFatalln (Error ''LastInsertId is not supported'')]"
    by (simp add: main_def env_defs stmt_defs)
  have f: "failed (ResLastInsertId (Inl (Error ''LastInsertId is not supported''))) =
       Some (Error ''LastInsertId is not supported'')"
    by simp
  from error_is_fatal_at_once [OF t f] t f show ?thesis by simp
qed

subsection \<open>The order of a successful run\<close>

text \<open>
  C3: on every successful run (exit code 0) the operations happen strictly in this
  order, each after the previous one succeeded: connect, verify liveness, insert, rows
  affected and its line, last inserted identifier and its line, query all, then for
  each row of the cursor advance, decode and print, then the advance that returns
  false, the check of the iteration error, and the release of the cursor followed by
  that of the connection. The trace of such a run is exactly that list, and every call
  in it returned without error.
\<close>

theorem successful_run_order:
  assumes "fst (main env) = 0"
  shows "\<exists>n i. rows_affected env = Inr n \<and> last_insert_id env = Inr i \<and>
           list_all decodes (result_rows env) \<and>
           trace (snd (main env)) =
             [SqlOpen ''mysql'' dsn None,
              DbPing None,
              DbExec query [''radovskyb'', ''password123''] None,
              ResRowsAffected (Inr n), Println (fmt_int64 n),
              ResLastInsertId (Inr i), Println (fmt_int64 i),
              DbQuery ''select * from users'' None] @
             decode_events 1 (result_rows env) @
             [RowsNext False, RowsErr None, RowsClose, DbClose]"
proof -
  from assms obtain n i where ok: "open_err env = None" "ping_err env = None"
      "exec_err env = None" "rows_affected env = Inr n" "last_insert_id env = Inr i"
      "query_err env = None" "list_all decodes (result_rows env)" "iter_err env = None"
    by (rule main_exit_0)
  from main_success [OF ok] have
    "trace (snd (main env)) =
       to_query n i @ decode_events 1 (result_rows env) @
       [RowsNext False, RowsErr None, RowsClose, DbClose]"
    by simp
  with ok show ?thesis by (simp add: to_query_def)
qed

theorem successful_run_order_witness:
  "fst (main env_ok) = 0 \<and>
   trace (snd (main env_ok)) =
     [SqlOpen ''mysql'' dsn None,
      DbPing None,
      DbExec query [''radovskyb'', ''password123''] None,
      ResRowsAffected (Inr 1), Println (fmt_int64 1),
      ResLastInsertId (Inr 1), Println (fmt_int64 1),
      DbQuery ''select * from users'' None,
      RowsNext True,
      RowsScan 1 [VInt 1, VText ''radovskyb'', VText ''password123''] None,
      Println (fmt_User \<lparr>Id_User = 1, Username = ''radovskyb'', Password = ''password123''\<rparr>),
      RowsNext False, RowsErr None, RowsClose, DbClose]"
proof -
  have h: "fst (main env_ok) = 0"
    by (simp add: main_def env_defs stmt_defs scan_defs)
  from successful_run_order [OF h] h show ?thesis
    by (auto simp add: env_defs scan_defs)
qed

subsection \<open>The check after the loop\<close>

text \<open>
  C4: once the loop has ended because \<^verbatim>\<open>rows.Next()\<close> returned false, the program calls
  \<^verbatim>\<open>rows.Err()\<close>. The advance signal is the same in both cases (\<open>RowsNext False\<close>); what
  follows depends on the answer of \<^verbatim>\<open>rows.Err()\<close> alone: without an error the run goes
  on to its normal end (the deferred releases, exit code 0), with an error it is fatal
  (exit code 1), a \<open>QueryError\<close> in the spec's terms.
\<close>

theorem post_loop_check:
  assumes "open_err env = None" and "ping_err env = None" and "exec_err env = None"
    and "rows_affected env = Inr n" and "last_insert_id env = Inr i"
    and "query_err env = None" and "list_all decodes (result_rows env)"
  shows "trace (snd (main env)) =
           to_query n i @ decode_events 1 (result_rows env) @
           [RowsNext False, RowsErr (iter_err env)] @
           (case iter_err env of None \<Rightarrow> [RowsClose, DbClose] | Some err \<Rightarrow> [LogFatalln err])
       \<and> fst (main env) = (case iter_err env of None \<Rightarrow> 0 | Some err \<Rightarrow> 1)
       \<and> (\<forall>err. iter_err env = Some err \<longrightarrow>
            spec_error_kind (RowsErr (iter_err env)) = Some QueryError)"
proof (cases "iter_err env")
  case None
  from main_success [OF assms None] None show ?thesis by simp
next
  case (Some err)
  from main_iter_fail [OF assms Some] Some show ?thesis by simp
qed

theorem post_loop_check_witness:
  "list_all decodes (result_rows env_broken_cursor) \<and>
   iter_err env_broken_cursor = Some (Error ''invalid connection'') \<and>
   fst (main env_broken_cursor) = 1 \<and>
   trace (snd (main env_broken_cursor)) =
     to_query 1 1 @
     [RowsNext True,
      RowsScan 1 [VInt 1, VText ''radovskyb'', VText ''password123''] None,
      Println (fmt_User \<lparr>Id_User = 1, Username = ''radovskyb'', Password = ''password123''\<rparr>),
      RowsNext False, RowsErr (Some (Error ''invalid connection'')),
      LogFatalln (Error ''invalid connection'')]"
proof -
  have h: "open_err env_broken_cursor = None" "ping_err env_broken_cursor = None"
    "exec_err env_broken_cursor = None" "rows_affected env_broken_cursor = Inr 1"
    "last_insert_id env_broken_cursor = Inr 1" "query_err env_broken_cursor = None"
    "list_all decodes (result_rows env_broken_cursor)"
    by (simp_all add: env_defs scan_defs)
  have e: "iter_err env_broken_cursor = Some (Error ''invalid connection'')"
    by (simp add: env_defs)
  have r: "result_rows env_broken_cursor = [ [VInt 1, VText ''radovskyb'', VText ''password123''] ]"
    by (simp add: env_defs)
  from post_loop_check [OF h] h e show ?thesis
    by (simp add: r scan_defs)
qed

subsection \<open>Decoding the rows\<close>

text \<open>
  C5: a row decodes if and only if it has exactly three columns of the expected types,
  an integer, a text and a text; a row with another number of columns gives an error
  (no truncation, no padding). In the loop, every row the cursor yields gets a record of
  its own, allocated at a fresh address (\<open>length (heap s)\<close>, one past the records that
  exist); if decoding fails the process ends there with the fatal log line, a
  \<open>DecodeError\<close> in the spec's terms, and prints nothing for that row; if it succeeds the
  record holds the three decoded fields and is printed, and the loop goes on with the
  next row. Over rows that all decode, the loop leaves one record per row, in cursor
  order.
\<close>

theorem row_decoding:
  "(decodes row \<longleftrightarrow> (\<exists>i n p. row = [VInt i, VText n, VText p]))
   \<and> (length row \<noteq> 3 \<longrightarrow> (\<exists>err. Scan row = Inl err))
   \<and> (\<forall>i n p. Scan [VInt i, VText n, VText p] =
                 Inr \<lparr>Id_User = i, Username = n, Password = p\<rparr>)
   \<and> (\<forall>v. Scan row = Inr v \<longrightarrow>
         rows_loop (row # rest) s =
           rows_loop rest
             (s\<lparr>heap := heap s @ [v],
                trace := trace s @
                  [RowsNext True, RowsScan (length (heap s)) row None, Println (fmt_User v)]\<rparr>))
   \<and> (\<forall>err. Scan row = Inl err \<longrightarrow>
         rows_loop (row # rest) s =
           Inl (1, s\<lparr>heap := heap s @ [zero_User],
                     trace := trace s @
                       [RowsNext True, RowsScan (length (heap s)) row (Some err),
                        LogFatalln err]\<rparr>) \<and>
         spec_error_kind (RowsScan (length (heap s)) row (Some err)) = Some DecodeError)
   \<and> (list_all decodes rows \<longrightarrow>
         rows_loop rows s =
           Inr (s\<lparr>heap := heap s @ map decoded rows,
                  trace := trace s @ decode_events (length (heap s)) rows @
                    [RowsNext False]\<rparr>))"
proof (intro conjI allI impI)
  show "decodes row \<longleftrightarrow> (\<exists>i n p. row = [VInt i, VText n, VText p])"
    by (rule decodes_iff)
  show "\<exists>err. Scan row = Inl err" if "length row \<noteq> 3"
    using that by (simp add: Scan_def)
  show "Scan [VInt i, VText n, VText p] = Inr \<lparr>Id_User = i, Username = n, Password = p\<rparr>"
    for i n p
    by (simp add: scan_defs)
  show "rows_loop (row # rest) s =
          rows_loop rest
            (s\<lparr>heap := heap s @ [v],
               trace := trace s @
                 [RowsNext True, RowsScan (length (heap s)) row None, Println (fmt_User v)]\<rparr>)"
    if "Scan row = Inr v" for v
    using that by (simp add: emit_def alloc_def store_def Let_def)
  show "rows_loop (row # rest) s =
          Inl (1, s\<lparr>heap := heap s @ [zero_User],
                    trace := trace s @
                      [RowsNext True, RowsScan (length (heap s)) row (Some err),
                       LogFatalln err]\<rparr>)"
    if "Scan row = Inl err" for err
    using that by (simp add: emit_def alloc_def log_Fatalln_def Let_def)
  show "spec_error_kind (RowsScan (length (heap s)) row (Some err)) = Some DecodeError"
    for err
    by simp
  show "rows_loop rows s =
          Inr (s\<lparr>heap := heap s @ map decoded rows,
                 trace := trace s @ decode_events (length (heap s)) rows @
                   [RowsNext False]\<rparr>)"
    if "list_all decodes rows"
    using that by (rule rows_loop_all_decode)
qed

theorem row_decoding_witness:
  "length [VInt 2, VText ''ann''] \<noteq> 3 \<and>
   Scan [VInt 2, VText ''ann''] = Inl (Error ''sql: expected 3 destination arguments in Scan'') \<and>
   rows_loop [ [VInt 2, VText ''ann''] ] init_state =
     Inl (1, \<lparr>heap = [zero_User], defers = [],
              trace = [RowsNext True,
                       RowsScan 0 [VInt 2, VText ''ann'']
                         (Some (Error ''sql: expected 3 destination arguments in Scan'')),
                       LogFatalln (Error ''sql: expected 3 destination arguments in Scan'')]\<rparr>) \<and>
   decodes [VInt 1, VText ''radovskyb'', VText ''password123''] \<and>
   list_all decodes [ [VInt 1, VText ''radovskyb'', VText ''password123''] ] \<and>
   rows_loop [ [VInt 1, VText ''radovskyb'', VText ''password123''] ] init_state =
     Inr \<lparr>heap = [\<lparr>Id_User = 1, Username = ''radovskyb'', Password = ''password123''\<rparr>],
          defers = [],
          trace = [RowsNext True,
                   RowsScan 0 [VInt 1, VText ''radovskyb'', VText ''password123''] None,
                   Println (fmt_User \<lparr>Id_User = 1, Username = ''radovskyb'',
                                      Password = ''password123''\<rparr>),
                   RowsNext False]\<rparr>"
proof -
  have l: "length [VInt 2, VText ''ann''] \<noteq> 3" by simp
  have b: "Scan [VInt 2, VText ''ann''] =
             Inl (Error ''sql: expected 3 destination arguments in Scan'')"
    by (simp add: Scan_def)
  have g: "list_all decodes [ [VInt 1, VText ''radovskyb'', VText ''password123''] ]"
    by (simp add: scan_defs)
  from row_decoding [of "[VInt 2, VText ''ann'']" "[]" init_state "[]"] b
  have 1: "rows_loop [ [VInt 2, VText ''ann''] ] init_state =
     Inl (1, \<lparr>heap = [zero_User], defers = [],
              trace = [RowsNext True,
                       RowsScan 0 [VInt 2, VText ''ann'']
                         (Some (Error ''sql: expected 3 destination arguments in Scan'')),
                       LogFatalln (Error ''sql: expected 3 destination arguments in Scan'')]\<rparr>)"
    by (simp add: stmt_defs)
  from row_decoding [of "[VInt 1, VText ''radovskyb'', VText ''password123'']" "[]" init_state
      "[ [VInt 1, VText ''radovskyb'', VText ''password123''] ]"] g
  have 2: "rows_loop [ [VInt 1, VText ''radovskyb'', VText ''password123''] ] init_state =
     Inr \<lparr>heap = [\<lparr>Id_User = 1, Username = ''radovskyb'', Password = ''password123''\<rparr>],
          defers = [],
          trace = [RowsNext True,
                   RowsScan 0 [VInt 1, VText ''radovskyb'', VText ''password123''] None,
                   Println (fmt_User \<lparr>Id_User = 1, Username = ''radovskyb'',
                                      Password = ''password123''\<rparr>),
                   RowsNext False]\<rparr>"
    by (simp add: stmt_defs scan_defs)
  from l b g 1 2 show ?thesis by simp
qed

subsection \<open>A failed liveness check\<close>

text \<open>
  C6: if the ping fails (the connection string points to a host that cannot be
  reached), the process halts with exit code 1, a \<open>ConnectionError\<close> in the spec's terms,
  before the insert statement is executed: the trace is open, ping, fatal log line, and
  holds no \<^verbatim>\<open>db.Exec\<close> at all, so the run adds no row to the table.
\<close>

theorem ping_failure_halts_before_insert:
  assumes "open_err env = None" and "ping_err env = Some err"
  shows "fst (main env) = 1 \<and>
         trace (snd (main env)) = [SqlOpen ''mysql'' dsn None, DbPing (Some err), LogFatalln err] \<and>
         spec_error_kind (DbPing (Some err)) = Some ConnectionError \<and>
         filter is_DbExec (trace (snd (main env))) = []"
  using assms by (simp add: main_ping_fail)

theorem ping_failure_halts_before_insert_witness:
  "open_err env_unreachable = None \<and>
   ping_err env_unreachable =
     Some (Error ''dial tcp 127.0.0.1:3306: connect: connection refused'') \<and>
   fst (main env_unreachable) = 1 \<and>
   filter is_DbExec (trace (snd (main env_unreachable))) = []"
proof -
  have o: "open_err env_unreachable = None" by (simp add: env_defs)
  have p: "ping_err env_unreachable =
     Some (Error ''dial tcp 127.0.0.1:3306: connect: connection refused'')"
    by (simp add: env_defs)
  from ping_failure_halts_before_insert [OF o p] o p show ?thesis by simp
qed

subsection \<open>Standard output\<close>

text \<open>
  C7: on every successful run, standard output is exactly one line with the count of
  rows affected, one line with the last inserted identifier, and then one line per
  decoded record, in cursor order, showing its three fields; nothing else.
\<close>

theorem successful_run_stdout:
  assumes "fst (main env) = 0"
  shows "\<exists>n i. rows_affected env = Inr n \<and> last_insert_id env = Inr i \<and>
           stdout (trace (snd (main env))) =
             fmt_int64 n # fmt_int64 i #
             map (\<lambda>row. fmt_User (decoded row)) (result_rows env)"
proof -
  from assms obtain n i where ok: "open_err env = None" "ping_err env = None"
      "exec_err env = None" "rows_affected env = Inr n" "last_insert_id env = Inr i"
      "query_err env = None" "list_all decodes (result_rows env)" "iter_err env = None"
    by (rule main_exit_0)
  from main_success [OF ok] have
    "stdout (trace (snd (main env))) =
       fmt_int64 n # fmt_int64 i # map (\<lambda>row. fmt_User (decoded row)) (result_rows env)"
    by (simp add: stdout_append stdout_decode_events stdout_to_query)
  with ok show ?thesis by simp
qed

theorem successful_run_stdout_witness:
  "fst (main env_ok) = 0 \<and>
   stdout (trace (snd (main env_ok))) =
     [fmt_int64 1, fmt_int64 1,
      fmt_User \<lparr>Id_User = 1, Username = ''radovskyb'', Password = ''password123''\<rparr>]"
proof -
  have h: "fst (main env_ok) = 0"
    by (simp add: main_def env_defs stmt_defs scan_defs)
  from successful_run_stdout [OF h] h show ?thesis
    by (auto simp add: env_defs scan_defs)
qed

subsection \<open>The two metrics of the insert\<close>

text \<open>
  C8: after a successful insert, the retrieval of the rows-affected count and that of
  the last inserted identifier can each fail on its own (a \<open>ResultError\<close> in the spec's
  terms), and either failure is fatal, with no fallback: if the first fails the second
  is never asked for and nothing is printed; if the second fails the count has already
  been printed. When both succeed, the count is retrieved and printed before the
  identifier is retrieved and printed.
\<close>

theorem insert_outcome_retrievals:
  assumes "open_err env = None" and "ping_err env = None" and "exec_err env = None"
  shows "(\<forall>err. rows_affected env = Inl err \<longrightarrow>
            fst (main env) = 1 \<and>
            trace (snd (main env)) =
              [SqlOpen ''mysql'' dsn None, DbPing None,
               DbExec query [''radovskyb'', ''password123''] None,
               ResRowsAffected (Inl err), LogFatalln err] \<and>
            spec_error_kind (ResRowsAffected (Inl err)) = Some ResultError)
       \<and> (\<forall>n err. rows_affected env = Inr n \<and> last_insert_id env = Inl err \<longrightarrow>
            fst (main env) = 1 \<and>
            trace (snd (main env)) =
              [SqlOpen ''mysql'' dsn None, DbPing None,
               DbExec query [''radovskyb'', ''password123''] None,
               ResRowsAffected (Inr n), Println (fmt_int64 n),
               ResLastInsertId (Inl err), LogFatalln err] \<and>
            spec_error_kind (ResLastInsertId (Inl err)) = Some ResultError)
       \<and> (\<forall>n i. rows_affected env = Inr n \<and> last_insert_id env = Inr i \<longrightarrow>
            (\<exists>rest. trace (snd (main env)) =
              [SqlOpen ''mysql'' dsn None, DbPing None,
               DbExec query [''radovskyb'', ''password123''] None,
               ResRowsAffected (Inr n), Println (fmt_int64 n),
               ResLastInsertId (Inr i), Println (fmt_int64 i)] @ rest))"
proof (intro conjI allI impI)
  fix err assume "rows_affected env = Inl err"
  with assms have m: "main env = (1, \<lparr>heap = [user0], defers = [CloseDB],
                   trace = [SqlOpen ''mysql'' dsn None, DbPing None,
                            DbExec query [''radovskyb'', ''password123''] None,
                            ResRowsAffected (Inl err), LogFatalln err]\<rparr>)"
    by (rule main_rows_affected_fail)
  from m show "fst (main env) = 1" by simp
  from m show "trace (snd (main env)) =
              [SqlOpen ''mysql'' dsn None, DbPing None,
               DbExec query [''radovskyb'', ''password123''] None,
               ResRowsAffected (Inl err), LogFatalln err]" by simp
  show "spec_error_kind (ResRowsAffected (Inl err)) = Some ResultError" by simp
next
  fix n err assume "rows_affected env = Inr n \<and> last_insert_id env = Inl err"
  then have "rows_affected env = Inr n" "last_insert_id env = Inl err" by simp_all
  with assms have m: "main env = (1, \<lparr>heap = [user0], defers = [CloseDB],
                   trace = [SqlOpen ''mysql'' dsn None, DbPing None,
                            DbExec query [''radovskyb'', ''password123''] None,
                            ResRowsAffected (Inr n), Println (fmt_int64 n),
                            ResLastInsertId (Inl err), LogFatalln err]\<rparr>)"
    by (rule main_last_insert_id_fail)
  from m show "fst (main env) = 1" by simp
  from m show "trace (snd (main env)) =
              [SqlOpen ''mysql'' dsn None, DbPing None,
               DbExec query [''radovskyb'', ''password123''] None,
               ResRowsAffected (Inr n), Println (fmt_int64 n),
               ResLastInsertId (Inl err), LogFatalln err]" by simp
  show "spec_error_kind (ResLastInsertId (Inl err)) = Some ResultError" by simp
next
  fix n i assume "rows_affected env = Inr n \<and> last_insert_id env = Inr i"
  then have "rows_affected env = Inr n" "last_insert_id env = Inr i" by simp_all
  with assms show "\<exists>rest. trace (snd (main env)) =
              [SqlOpen ''mysql'' dsn None, DbPing None,
               DbExec query [''radovskyb'', ''password123''] None,
               ResRowsAffected (Inr n), Println (fmt_int64 n),
               ResLastInsertId (Inr i), Println (fmt_int64 i)] @ rest"
    by (rule main_trace_prefix)
qed

theorem insert_outcome_retrievals_witness:
  "open_err env_no_insert_id = None \<and> ping_err env_no_insert_id = None \<and>
   exec_err env_no_insert_id = None \<and>
   rows_affected env_no_insert_id = Inr 1 \<and>
   last_insert_id env_no_insert_id = Inl (Error ''LastInsertId is not supported'') \<and>
   fst (main env_no_insert_id) = 1 \<and>
   trace (snd (main env_no_insert_id)) =
     [SqlOpen ''mysql'' dsn None, DbPing None,
      DbExec query [''radovskyb'', ''password123''] None,
      ResRowsAffected (Inr 1), Println (fmt_int64 1),
      ResLastInsertId (Inl (Error ''LastInsertId is not supported'')),
      LogFatalln (Error ''LastInsertId is not supported'')]"
proof -
  have h: "open_err env_no_insert_id = None" "ping_err env_no_insert_id = None"
    "exec_err env_no_insert_id = None"
    by (simp_all add: env_defs)
  have r: "rows_affected env_no_insert_id = Inr 1 \<and>
    last_insert_id env_no_insert_id = Inl (Error ''LastInsertId is not supported'')"
    by (simp add: env_defs)
  from insert_outcome_retrievals [OF h] r h show ?thesis by blast
qed

subsection \<open>An empty result\<close>

text \<open>
  C9: when the select finds no row, the first \<^verbatim>\<open>rows.Next()\<close> already returns false, no
  record is printed (standard output holds the two lines of the insert only), the check
  after the loop passes, no call returned an error, and the process ends normally with
  exit code 0 after releasing the cursor and the connection.
\<close>

theorem empty_result_set:
  assumes "open_err env = None" and "ping_err env = None" and "exec_err env = None"
    and "rows_affected env = Inr n" and "last_insert_id env = Inr i"
    and "query_err env = None" and "result_rows env = []" and "iter_err env = None"
  shows "fst (main env) = 0 \<and>
         trace (snd (main env)) =
           [SqlOpen ''mysql'' dsn None, DbPing None,
            DbExec query [''radovskyb'', ''password123''] None,
            ResRowsAffected (Inr n), Println (fmt_int64 n),
            ResLastInsertId (Inr i), Println (fmt_int64 i),
            DbQuery ''select * from users'' None,
            RowsNext False, RowsErr None, RowsClose, DbClose] \<and>
         stdout (trace (snd (main env))) = [fmt_int64 n, fmt_int64 i] \<and>
         clean (trace (snd (main env)))"
proof -
  from assms(7) have "list_all decodes (result_rows env)" by simp
  from main_success [OF assms(1-6) this assms(8)] assms(7)
  show ?thesis by (simp add: to_query_def clean_def)
qed

theorem empty_result_set_witness:
  "result_rows env_empty = [] \<and> iter_err env_empty = None \<and>
   fst (main env_empty) = 0 \<and>
   stdout (trace (snd (main env_empty))) = [fmt_int64 1, fmt_int64 1]"
proof -
  have h: "open_err env_empty = None" "ping_err env_empty = None" "exec_err env_empty = None"
    "rows_affected env_empty = Inr 1" "last_insert_id env_empty = Inr 1"
    "query_err env_empty = None" "result_rows env_empty = []" "iter_err env_empty = None"
    by (simp_all add: env_defs)
  from empty_result_set [OF h] h show ?thesis by simp
qed

subsection \<open>The record built for the insert\<close>

text \<open>
  C10: the record built at line 50 for the insert, the first one allocated (address 0,
  the record whose user name and password are the bound values of the insert, the third
  event of the trace), is not touched again. In every run that gets past the ping, whatever happens
  afterwards and whatever identifier the database reports, the record still has its
  identifier at the zero value and the user name and password of the literal when the
  process ends, and no \<^verbatim>\<open>Scan\<close> of the run has it as destination (the loop decodes
  into records of its own).
\<close>

theorem inserted_record_never_updated:
  assumes "open_err env = None" and "ping_err env = None"
  shows "heap (snd (main env)) \<noteq> [] \<and>
         heap (snd (main env)) ! 0 =
           \<lparr>Id_User = 0, Username = ''radovskyb'', Password = ''password123''\<rparr> \<and>
         trace (snd (main env)) ! 2 =
           DbExec query [Username (heap (snd (main env)) ! 0),
                         Password (heap (snd (main env)) ! 0)] (exec_err env) \<and>
         list_all (\<lambda>ev. scan_dest ev \<noteq> Some 0) (trace (snd (main env)))"
  using assms
proof (cases env rule: main_cases)
  case (scan_fail n i ok bad rest err)
  note c = this
  from main_scan_fail [OF c] c(3) show ?thesis
    using scan_dest_decode_events [of 0 ok] by (simp add: user0_def to_query_def)
next
  case (iter_fail n i err)
  note c = this
  from main_iter_fail [OF c] c(3) show ?thesis
    using scan_dest_decode_events [of 0 "result_rows env"] by (simp add: user0_def to_query_def)
next
  case (success n i)
  note c = this
  from main_success [OF c] c(3) show ?thesis
    using scan_dest_decode_events [of 0 "result_rows env"] by (simp add: user0_def to_query_def)
qed (simp_all add: main_exec_fail main_rows_affected_fail main_last_insert_id_fail
      main_query_fail user0_def)

theorem inserted_record_never_updated_witness:
  "open_err env_ok = None \<and> ping_err env_ok = None \<and>
   last_insert_id env_ok = Inr 1 \<and>
   fst (main env_ok) = 0 \<and>
   heap (snd (main env_ok)) ! 0 =
     \<lparr>Id_User = 0, Username = ''radovskyb'', Password = ''password123''\<rparr>"
proof -
  have h: "open_err env_ok = None" "ping_err env_ok = None"
    by (simp_all add: env_defs)
  have l: "last_insert_id env_ok = Inr 1" by (simp add: env_defs)
  have x: "fst (main env_ok) = 0"
    by (simp add: main_def env_defs stmt_defs scan_defs)
  from inserted_record_never_updated [OF h] h l x show ?thesis by simp
qed

end
